theory Spec2Isabelle
  imports Main "HOL-Library.Sublist"
begin

section \<open>The chat backend of index.js\<close>

text \<open>
  A shallow embedding of \<^verbatim>\<open>src/index.js\<close>: the authentication middleware
  \<^verbatim>\<open>authenticateToken\<close>, the helper \<^verbatim>\<open>getChatGPTResponse\<close> and the handlers of
  \<^verbatim>\<open>POST /api/register\<close>, \<^verbatim>\<open>GET /api/users\<close>, \<^verbatim>\<open>POST /api/login\<close> and
  \<^verbatim>\<open>POST /api/chatbot\<close>. The document store is threaded through the handlers as a value,
  every \<^verbatim>\<open>throw\<close> is a value of a sum type, and what the file takes from outside itself
  (the jsonwebtoken, bcrypt and openai modules, the clock, \<^verbatim>\<open>process.env.JWT_SECRET\<close> and the
  identifiers bound in module scope) is the record \<open>env\<close>.
\<close>

subsection \<open>JavaScript values and strings\<close>

text \<open>
  The name, email and systemRole fields of a request body, the Authorization header and an
  optional document field are \<open>string option\<close>: \<open>None\<close> is \<^verbatim>\<open>undefined\<close>. \<^verbatim>\<open>if (x)\<close> and \<^verbatim>\<open>!x\<close> test truthiness: \<^verbatim>\<open>undefined\<close> and
  the empty string are falsy, every other string is truthy.
\<close>

definition truthy :: "string option \<Rightarrow> bool" where
  "truthy x = (case x of None \<Rightarrow> False | Some s \<Rightarrow> s \<noteq> [])"

text \<open>
  A password field of a request body is any JSON value the body parser delivers: a string, a
  number, a boolean, \<^verbatim>\<open>null\<close>, or an array or object (\<open>Obj\<close>, whose content plays no role).
  The falsy ones are the empty string, zero, \<^verbatim>\<open>false\<close> and \<^verbatim>\<open>null\<close>.
\<close>

datatype jsvalue = Str string | Num int | Bool bool | Null | Obj

fun truthy_value :: "jsvalue \<Rightarrow> bool" where
  "truthy_value (Str s) = (s \<noteq> [])"
| "truthy_value (Num n) = (n \<noteq> 0)"
| "truthy_value (Bool b) = b"
| "truthy_value Null = False"
| "truthy_value Obj = True"

text \<open>\<^verbatim>\<open>a || b\<close> on an optional string and a string default.\<close>

definition or_else :: "string option \<Rightarrow> string \<Rightarrow> string" where
  "or_else x d = (case x of None \<Rightarrow> d | Some s \<Rightarrow> if s = [] then d else s)"

text \<open>
  \<^verbatim>\<open>s.includes(pat)\<close>, and \<^verbatim>\<open>s.replace(pat, rep)\<close> with a string pattern: the first occurrence
  of \<open>pat\<close> in \<open>s\<close>, wherever it is, is replaced; a string without an occurrence is returned
  as it is.
\<close>

fun str_includes :: "string \<Rightarrow> string \<Rightarrow> bool" where
  "str_includes [] pat = (pat = [])"
| "str_includes (c # cs) pat = (prefix pat (c # cs) \<or> str_includes cs pat)"

fun replace :: "string \<Rightarrow> string \<Rightarrow> string \<Rightarrow> string" where
  "replace [] pat rep = (if pat = [] then rep else [])"
| "replace (c # cs) pat rep =
     (if prefix pat (c # cs) then rep @ drop (length pat) (c # cs)
      else c # replace cs pat rep)"

datatype error = TypeError | ReferenceError | Error string | ArgumentError

subsection \<open>Response messages\<close>

text \<open>
  The message literals of the source are Korean; each is given here as the UTF-8 bytes of the
  literal on the line named, with an English gloss.
\<close>

definition msg_openai_error :: string where
  \<comment> \<open>line 95, 25 bytes (ChatGPT API error)\<close>
  "msg_openai_error =
    [CHR 0x43, CHR 0x68, CHR 0x61, CHR 0x74, CHR 0x47, CHR 0x50, CHR 0x54, CHR 0x20,
     CHR 0x41, CHR 0x50, CHR 0x49, CHR 0x20, CHR 0xEC, CHR 0x98, CHR 0xA4, CHR 0xEB,
     CHR 0xA5, CHR 0x98, CHR 0x20, CHR 0xEB, CHR 0xB0, CHR 0x9C, CHR 0xEC, CHR 0x83,
     CHR 0x9D]"

definition msg_no_token :: string where
  \<comment> \<open>line 103, 23 bytes (no token)\<close>
  "msg_no_token =
    [CHR 0xED, CHR 0x86, CHR 0xA0, CHR 0xED, CHR 0x81, CHR 0xB0, CHR 0xEC, CHR 0x9D,
     CHR 0xB4, CHR 0x20, CHR 0xEC, CHR 0x97, CHR 0x86, CHR 0xEC, CHR 0x8A, CHR 0xB5,
     CHR 0xEB, CHR 0x8B, CHR 0x88, CHR 0xEB, CHR 0x8B, CHR 0xA4, CHR 0x2E]"

definition msg_invalid_token :: string where
  \<comment> \<open>line 111, 36 bytes (invalid token)\<close>
  "msg_invalid_token =
    [CHR 0xEC, CHR 0x9C, CHR 0xA0, CHR 0xED, CHR 0x9A, CHR 0xA8, CHR 0xED, CHR 0x95,
     CHR 0x98, CHR 0xEC, CHR 0xA7, CHR 0x80, CHR 0x20, CHR 0xEC, CHR 0x95, CHR 0x8A,
     CHR 0xEC, CHR 0x9D, CHR 0x80, CHR 0x20, CHR 0xED, CHR 0x86, CHR 0xA0, CHR 0xED,
     CHR 0x81, CHR 0xB0, CHR 0xEC, CHR 0x9E, CHR 0x85, CHR 0xEB, CHR 0x8B, CHR 0x88,
     CHR 0xEB, CHR 0x8B, CHR 0xA4, CHR 0x2E]"

definition msg_fill_all_fields :: string where
  \<comment> \<open>line 120, 36 bytes (please fill in every field)\<close>
  "msg_fill_all_fields =
    [CHR 0xEB, CHR 0xAA, CHR 0xA8, CHR 0xEB, CHR 0x93, CHR 0xA0, CHR 0x20, CHR 0xED,
     CHR 0x95, CHR 0x84, CHR 0xEB, CHR 0x93, CHR 0x9C, CHR 0xEB, CHR 0xA5, CHR 0xBC,
     CHR 0x20, CHR 0xEC, CHR 0x9E, CHR 0x85, CHR 0xEB, CHR 0xA0, CHR 0xA5, CHR 0xED,
     CHR 0x95, CHR 0xB4, CHR 0xEC, CHR 0xA3, CHR 0xBC, CHR 0xEC, CHR 0x84, CHR 0xB8,
     CHR 0xEC, CHR 0x9A, CHR 0x94, CHR 0x2E]"

definition msg_user_exists :: string where
  \<comment> \<open>line 126, 39 bytes (user already exists)\<close>
  "msg_user_exists =
    [CHR 0xEC, CHR 0x9D, CHR 0xB4, CHR 0xEB, CHR 0xAF, CHR 0xB8, CHR 0x20, CHR 0xEC,
     CHR 0xA1, CHR 0xB4, CHR 0xEC, CHR 0x9E, CHR 0xAC, CHR 0xED, CHR 0x95, CHR 0x98,
     CHR 0xEB, CHR 0x8A, CHR 0x94, CHR 0x20, CHR 0xEC, CHR 0x82, CHR 0xAC, CHR 0xEC,
     CHR 0x9A, CHR 0xA9, CHR 0xEC, CHR 0x9E, CHR 0x90, CHR 0xEC, CHR 0x9E, CHR 0x85,
     CHR 0xEB, CHR 0x8B, CHR 0x88, CHR 0xEB, CHR 0x8B, CHR 0xA4, CHR 0x2E]"

definition msg_registered :: string where
  \<comment> \<open>line 140, 51 bytes (user registered successfully)\<close>
  "msg_registered =
    [CHR 0xEC, CHR 0x82, CHR 0xAC, CHR 0xEC, CHR 0x9A, CHR 0xA9, CHR 0xEC, CHR 0x9E,
     CHR 0x90, CHR 0xEA, CHR 0xB0, CHR 0x80, CHR 0x20, CHR 0xEC, CHR 0x84, CHR 0xB1,
     CHR 0xEA, CHR 0xB3, CHR 0xB5, CHR 0xEC, CHR 0xA0, CHR 0x81, CHR 0xEC, CHR 0x9C,
     CHR 0xBC, CHR 0xEB, CHR 0xA1, CHR 0x9C, CHR 0x20, CHR 0xEB, CHR 0x93, CHR 0xB1,
     CHR 0xEB, CHR 0xA1, CHR 0x9D, CHR 0xEB, CHR 0x90, CHR 0x98, CHR 0xEC, CHR 0x97,
     CHR 0x88, CHR 0xEC, CHR 0x8A, CHR 0xB5, CHR 0xEB, CHR 0x8B, CHR 0x88, CHR 0xEB,
     CHR 0x8B, CHR 0xA4, CHR 0x2E]"

definition msg_register_server_error :: string where
  \<comment> \<open>line 143, 20 bytes (server error)\<close>
  "msg_register_server_error =
    [CHR 0xEC, CHR 0x84, CHR 0x9C, CHR 0xEB, CHR 0xB2, CHR 0x84, CHR 0x20, CHR 0xEC,
     CHR 0x98, CHR 0xA4, CHR 0xEB, CHR 0xA5, CHR 0x98, CHR 0x20, CHR 0xEB, CHR 0xB0,
     CHR 0x9C, CHR 0xEC, CHR 0x83, CHR 0x9D]"

definition msg_enter_email_password :: string where
  \<comment> \<open>line 163, 48 bytes (please enter email and password)\<close>
  "msg_enter_email_password =
    [CHR 0xEC, CHR 0x9D, CHR 0xB4, CHR 0xEB, CHR 0xA9, CHR 0x94, CHR 0xEC, CHR 0x9D,
     CHR 0xBC, CHR 0xEA, CHR 0xB3, CHR 0xBC, CHR 0x20, CHR 0xEB, CHR 0xB9, CHR 0x84,
     CHR 0xEB, CHR 0xB0, CHR 0x80, CHR 0xEB, CHR 0xB2, CHR 0x88, CHR 0xED, CHR 0x98,
     CHR 0xB8, CHR 0xEB, CHR 0xA5, CHR 0xBC, CHR 0x20, CHR 0xEC, CHR 0x9E, CHR 0x85,
     CHR 0xEB, CHR 0xA0, CHR 0xA5, CHR 0xED, CHR 0x95, CHR 0xB4, CHR 0xEC, CHR 0xA3,
     CHR 0xBC, CHR 0xEC, CHR 0x84, CHR 0xB8, CHR 0xEC, CHR 0x9A, CHR 0x94, CHR 0x2E]"

definition msg_login_no_user :: string where
  \<comment> \<open>line 169, 49 bytes (wrong email or password)\<close>
  "msg_login_no_user =
    [CHR 0xEC, CHR 0x9E, CHR 0x98, CHR 0xEB, CHR 0xAA, CHR 0xBB, CHR 0xEB, CHR 0x90,
     CHR 0x9C, CHR 0x20, CHR 0xEC, CHR 0x9D, CHR 0xB4, CHR 0xEB, CHR 0xA9, CHR 0x94,
     CHR 0xEC, CHR 0x9D, CHR 0xBC, CHR 0x20, CHR 0xEB, CHR 0x98, CHR 0x90, CHR 0xEB,
     CHR 0x8A, CHR 0x94, CHR 0x20, CHR 0xEB, CHR 0xB9, CHR 0x84, CHR 0xEB, CHR 0xB0,
     CHR 0x80, CHR 0xEB, CHR 0xB2, CHR 0x88, CHR 0xED, CHR 0x98, CHR 0xB8, CHR 0xEC,
     CHR 0x9E, CHR 0x85, CHR 0xEB, CHR 0x8B, CHR 0x88, CHR 0xEB, CHR 0x8B, CHR 0xA4,
     CHR 0x2E]"

definition msg_login_bad_password :: string where
  \<comment> \<open>line 174, 49 bytes (wrong email or password)\<close>
  "msg_login_bad_password =
    [CHR 0xEC, CHR 0x9E, CHR 0x98, CHR 0xEB, CHR 0xAA, CHR 0xBB, CHR 0xEB, CHR 0x90,
     CHR 0x9C, CHR 0x20, CHR 0xEC, CHR 0x9D, CHR 0xB4, CHR 0xEB, CHR 0xA9, CHR 0x94,
     CHR 0xEC, CHR 0x9D, CHR 0xBC, CHR 0x20, CHR 0xEB, CHR 0x98, CHR 0x90, CHR 0xEB,
     CHR 0x8A, CHR 0x94, CHR 0x20, CHR 0xEB, CHR 0xB9, CHR 0x84, CHR 0xEB, CHR 0xB0,
     CHR 0x80, CHR 0xEB, CHR 0xB2, CHR 0x88, CHR 0xED, CHR 0x98, CHR 0xB8, CHR 0xEC,
     CHR 0x9E, CHR 0x85, CHR 0xEB, CHR 0x8B, CHR 0x88, CHR 0xEB, CHR 0x8B, CHR 0xA4,
     CHR 0x2E]"

definition msg_login_ok :: string where
  \<comment> \<open>line 178, 17 bytes (login succeeded)\<close>
  "msg_login_ok =
    [CHR 0xEB, CHR 0xA1, CHR 0x9C, CHR 0xEA, CHR 0xB7, CHR 0xB8, CHR 0xEC, CHR 0x9D,
     CHR 0xB8, CHR 0x20, CHR 0xEC, CHR 0x84, CHR 0xB1, CHR 0xEA, CHR 0xB3, CHR 0xB5,
     CHR 0x21]"

definition msg_login_server_error :: string where
  \<comment> \<open>line 181, 20 bytes (server error)\<close>
  "msg_login_server_error =
    [CHR 0xEC, CHR 0x84, CHR 0x9C, CHR 0xEB, CHR 0xB2, CHR 0x84, CHR 0x20, CHR 0xEC,
     CHR 0x98, CHR 0xA4, CHR 0xEB, CHR 0xA5, CHR 0x98, CHR 0x20, CHR 0xEB, CHR 0xB0,
     CHR 0x9C, CHR 0xEC, CHR 0x83, CHR 0x9D]"

definition msg_chatbot_error :: string where
  \<comment> \<open>line 211, 44 bytes (error while interacting with ChatGPT)\<close>
  "msg_chatbot_error =
    [CHR 0x43, CHR 0x68, CHR 0x61, CHR 0x74, CHR 0x47, CHR 0x50, CHR 0x54, CHR 0xEC,
     CHR 0x99, CHR 0x80, CHR 0xEC, CHR 0x9D, CHR 0x98, CHR 0x20, CHR 0xEC, CHR 0x83,
     CHR 0x81, CHR 0xED, CHR 0x98, CHR 0xB8, CHR 0xEC, CHR 0x9E, CHR 0x91, CHR 0xEC,
     CHR 0x9A, CHR 0xA9, CHR 0x20, CHR 0xEC, CHR 0xA4, CHR 0x91, CHR 0x20, CHR 0xEC,
     CHR 0x98, CHR 0xA4, CHR 0xEB, CHR 0xA5, CHR 0x98, CHR 0x20, CHR 0xEB, CHR 0xB0,
     CHR 0x9C, CHR 0xEC, CHR 0x83, CHR 0x9D]"

subsection \<open>Documents, store, requests and responses\<close>

text \<open>
  Modelled from the spec: the schemas \<^verbatim>\<open>models/User\<close> (required on line 3) and
  \<^verbatim>\<open>Conversation\<close> are not part of the source given. A User is \<^verbatim>\<open>{id, name, email,
  password (hashed), systemRole (optional string)}\<close>, a Conversation turn is \<^verbatim>\<open>{userId, role,
  content}\<close>; the fields are the ones index.js reads and writes. A collection is the list of
  its documents in insertion order, which is the order \<^verbatim>\<open>find\<close> returns them in. Store
  operations succeed: a failure of the database itself is outside the model.
\<close>

type_synonym oid = nat

record user =
  uid :: oid
  name :: string
  email :: string
  password :: string
  systemRole :: "string option"

record message =
  role :: string
  content :: string

record conversation_doc = message +
  userId :: oid

record store =
  users :: "user list"
  conversations :: "conversation_doc list"

record jwt_payload =
  pid :: oid
  iat :: nat
  exp :: nat

record completion_request =
  model :: string
  messages :: "message list"
  temperature :: nat
  max_tokens :: nat

record register_body =
  rb_name :: "string option"
  rb_email :: "string option"
  rb_password :: "jsvalue option"

record login_body =
  lb_email :: "string option"
  lb_password :: "jsvalue option"

record chat_body =
  cb_message :: string
  cb_systemRole :: "string option"

type_synonym public_user = "oid \<times> string \<times> string \<times> string option"

datatype body =
    Message string
  | TokenMessage string string
  | UserList "public_user list"
  | ChatResponse string

record response =
  status :: nat
  body :: body

text \<open>
  What index.js takes from outside itself. \<open>declared\<close> lists the identifiers bound in module
  scope; \<open>now\<close> is the clock in seconds, the unit of the \<^verbatim>\<open>iat\<close> and \<^verbatim>\<open>exp\<close> fields of a
  token. \<open>jwt_sign i secret ttl t\<close> is \<^verbatim>\<open>jwt.sign({ id: i }, secret, { expiresIn: ttl })\<close> run
  at time \<open>t\<close>, \<open>jwt_verify tok secret t\<close> is \<^verbatim>\<open>jwt.verify(tok, secret)\<close> run at time \<open>t\<close>
  (\<open>None\<close> when it throws). \<open>bcrypt_hash\<close> and \<open>bcrypt_compare\<close> are \<^verbatim>\<open>bcrypt.hash\<close> and
  \<^verbatim>\<open>bcrypt.compare\<close> on string arguments. \<open>openai_create r\<close> is the outcome of one call
  \<^verbatim>\<open>openai.chat.completions.create(r)\<close>: the content of the first choice, or \<open>None\<close> when the
  call throws. What the client does on the wire during one call is inside \<open>openai_create\<close>:
  the client is built with default options on lines 75 to 77, so it may send the request of
  one call more than once before the call returns or throws.
\<close>

record env =
  declared :: "string list"
  JWT_SECRET :: string
  now :: nat
  jwt_sign :: "oid \<Rightarrow> string \<Rightarrow> nat \<Rightarrow> nat \<Rightarrow> string"
  jwt_verify :: "string \<Rightarrow> string \<Rightarrow> nat \<Rightarrow> jwt_payload option"
  bcrypt_hash :: "string \<Rightarrow> nat \<Rightarrow> string"
  bcrypt_compare :: "string \<Rightarrow> string \<Rightarrow> bool"
  openai_create :: "completion_request \<Rightarrow> string option"

text \<open>
  The identifiers index.js binds at module level (lines 1 to 9, 20, 32, 39, 43, 46, 54, 75,
  80 and 100). \<^verbatim>\<open>Conversation\<close>, used on lines 199, 205 and 206, is not among them: the file
  requires \<^verbatim>\<open>./models/User\<close> only.
\<close>

definition index_js_declared :: "string list" where
  "index_js_declared =
    [''express'', ''mongoose'', ''User'', ''jwt'', ''bcrypt'', ''cors'', ''dotenv'',
     ''OpenAI'', ''promClient'', ''port'', ''db'', ''collectDefaultMetrics'', ''register'',
     ''httpRequestDurationMicroseconds'', ''app'', ''openai'', ''getChatGPTResponse'',
     ''authenticateToken'']"

subsection \<open>Store operations\<close>

definition findOne_email :: "store \<Rightarrow> string \<Rightarrow> user option" where
  \<comment> \<open>\<^verbatim>\<open>User.findOne({ email })\<close>\<close>
  "findOne_email s e = find (\<lambda>u. email u = e) (users s)"

definition findById :: "store \<Rightarrow> oid \<Rightarrow> user option" where
  \<comment> \<open>\<^verbatim>\<open>User.findById(userId)\<close>\<close>
  "findById s i = find (\<lambda>u. uid u = i) (users s)"

definition new_oid :: "store \<Rightarrow> oid" where
  \<comment> \<open>the \<^verbatim>\<open>_id\<close> a new document gets: one no stored user has\<close>
  "new_oid s = Suc (fold max (map uid (users s)) 0)"

fun replace_doc :: "user \<Rightarrow> user list \<Rightarrow> user list" where
  "replace_doc u [] = []"
| "replace_doc u (v # vs) = (if uid v = uid u then u # vs else v # replace_doc u vs)"

definition save_user :: "store \<Rightarrow> user \<Rightarrow> store" where
  \<comment> \<open>\<^verbatim>\<open>user.save()\<close> on a document loaded from the store\<close>
  "save_user s u = s\<lparr>users := replace_doc u (users s)\<rparr>"

definition insert_user :: "store \<Rightarrow> user \<Rightarrow> store" where
  \<comment> \<open>\<^verbatim>\<open>newUser.save()\<close> on a new document\<close>
  "insert_user s u = s\<lparr>users := users s @ [u]\<rparr>"

definition find_conversations :: "store \<Rightarrow> oid \<Rightarrow> conversation_doc list" where
  \<comment> \<open>\<^verbatim>\<open>Conversation.find({ userId })\<close>\<close>
  "find_conversations s i = filter (\<lambda>c. userId c = i) (conversations s)"

definition insert_conversation :: "store \<Rightarrow> conversation_doc \<Rightarrow> store" where
  \<comment> \<open>\<^verbatim>\<open>new Conversation({ userId, role, content }).save()\<close>\<close>
  "insert_conversation s c = s\<lparr>conversations := conversations s @ [c]\<rparr>"

subsection \<open>Calls of bcrypt\<close>

text \<open>
  \<^verbatim>\<open>bcrypt.hash(password, 10)\<close> and \<^verbatim>\<open>bcrypt.compare(password, user.password)\<close> with the
  password as the request delivers it: bcrypt rejects data that is not a string, and the
  awaited call throws.
\<close>

definition hash_call :: "env \<Rightarrow> jsvalue \<Rightarrow> nat \<Rightarrow> error + string" where
  "hash_call e data rounds =
    (case data of Str pw \<Rightarrow> Inr (bcrypt_hash e pw rounds) | _ \<Rightarrow> Inl ArgumentError)"

definition compare_call :: "env \<Rightarrow> jsvalue \<Rightarrow> string \<Rightarrow> error + bool" where
  "compare_call e data hashed =
    (case data of Str pw \<Rightarrow> Inr (bcrypt_compare e pw hashed) | _ \<Rightarrow> Inl ArgumentError)"

subsection \<open>getChatGPTResponse (lines 80 to 97)\<close>

definition completion_of :: "message list \<Rightarrow> string option \<Rightarrow> completion_request" where
  "completion_of msgs sysRole =
    \<lparr>model = ''gpt-4'',
     messages = \<lparr>role = ''system'',
                 content = or_else sysRole ''You are a helpful assistant.''\<rparr> # msgs,
     temperature = 1,
     max_tokens = 256\<rparr>"

text \<open>
  The result is the value returned or the error thrown, with the calls of
  \<^verbatim>\<open>openai.chat.completions.create\<close> that were made, each given by its argument. The function
  makes one call; how many requests the client sends for it is not part of this record.
\<close>

definition getChatGPTResponse ::
  "env \<Rightarrow> message list \<Rightarrow> string option \<Rightarrow> (error + string) \<times> completion_request list" where
  "getChatGPTResponse e msgs sysRole =
    (let r = completion_of msgs sysRole in
     case openai_create e r of
       Some reply \<Rightarrow> (Inr reply, [r])
     | None \<Rightarrow> (Inl (Error msg_openai_error), [r]))"

subsection \<open>authenticateToken (lines 100 to 113)\<close>

definition header_token :: "string option \<Rightarrow> string option" where
  \<comment> \<open>\<^verbatim>\<open>req.header('Authorization')?.replace('Bearer ', '')\<close>\<close>
  "header_token h = map_option (\<lambda>v. replace v ''Bearer '' []) h"

text \<open>
  \<open>Inl r\<close>: the middleware answered with \<open>r\<close> and the handler is not called;
  \<open>Inr v\<close>: \<^verbatim>\<open>req.user = v\<close> and \<^verbatim>\<open>next()\<close>.
\<close>

definition authenticateToken :: "env \<Rightarrow> string option \<Rightarrow> response + jwt_payload" where
  "authenticateToken e h =
    (case header_token h of
       None \<Rightarrow> Inl \<lparr>status = 401, body = Message msg_no_token\<rparr>
     | Some token \<Rightarrow>
         if token = [] then Inl \<lparr>status = 401, body = Message msg_no_token\<rparr>
         else (case jwt_verify e token (JWT_SECRET e) (now e) of
                 Some verified \<Rightarrow> Inr verified
               | None \<Rightarrow> Inl \<lparr>status = 403, body = Message msg_invalid_token\<rparr>))"

subsection \<open>POST /api/register (lines 116 to 145)\<close>

text \<open>
  The guard \<^verbatim>\<open>!name || !email || !password\<close> of line 119 lets a body through when the three
  fields are present and truthy: the first case below with its \<open>if\<close>; every other body
  gets the response of line 120. The guard of line 162 in the login handler is modelled the
  same way. \<^verbatim>\<open>bcrypt.hash\<close> on line 129 is inside the \<^verbatim>\<open>try\<close>: when it throws, the catch of
  lines 141 to 144 answers 500 and nothing has been saved.
\<close>

definition register_handler :: "env \<Rightarrow> store \<Rightarrow> register_body \<Rightarrow> response \<times> store" where
  "register_handler e s b =
    (case (rb_name b, rb_email b, rb_password b) of
       (Some n, Some em, Some pw) \<Rightarrow>
         if n = [] \<or> em = [] \<or> \<not> truthy_value pw
         then (\<lparr>status = 400, body = Message msg_fill_all_fields\<rparr>, s)
         else (case findOne_email s em of
                 Some existingUser \<Rightarrow> (\<lparr>status = 400, body = Message msg_user_exists\<rparr>, s)
               | None \<Rightarrow>
                   (case hash_call e pw 10 of
                      Inl err \<Rightarrow>
                        (\<lparr>status = 500, body = Message msg_register_server_error\<rparr>, s)
                    | Inr hashedPassword \<Rightarrow>
                        let newUser = \<lparr>uid = new_oid s, name = n, email = em,
                                       password = hashedPassword, systemRole = None\<rparr>;
                            s' = insert_user s newUser;
                            token = jwt_sign e (uid newUser) (JWT_SECRET e) 3600 (now e)
                        in (\<lparr>status = 201, body = TokenMessage token msg_registered\<rparr>, s')))
     | _ \<Rightarrow> (\<lparr>status = 400, body = Message msg_fill_all_fields\<rparr>, s))"

subsection \<open>GET /api/users (lines 148 to 156)\<close>

definition public :: "user \<Rightarrow> public_user" where
  \<comment> \<open>the projection \<^verbatim>\<open>{ password: 0 }\<close>\<close>
  "public u = (uid u, name u, email u, systemRole u)"

definition users_handler :: "store \<Rightarrow> response" where
  "users_handler s = \<lparr>status = 200, body = UserList (map public (users s))\<rparr>"

definition get_api_users :: "env \<Rightarrow> store \<Rightarrow> string option \<Rightarrow> response" where
  "get_api_users e s h =
    (case authenticateToken e h of Inl r \<Rightarrow> r | Inr verified \<Rightarrow> users_handler s)"

subsection \<open>POST /api/login (lines 159 to 183)\<close>

text \<open>
  \<^verbatim>\<open>bcrypt.compare\<close> on line 172 is inside the \<^verbatim>\<open>try\<close> and is reached only when a user with
  the email is stored: when it throws, the catch of lines 179 to 182 answers 500.
\<close>

definition login_handler :: "env \<Rightarrow> store \<Rightarrow> login_body \<Rightarrow> response" where
  "login_handler e s b =
    (case (lb_email b, lb_password b) of
       (Some em, Some pw) \<Rightarrow>
         if em = [] \<or> \<not> truthy_value pw
         then \<lparr>status = 400, body = Message msg_enter_email_password\<rparr>
         else (case findOne_email s em of
                 None \<Rightarrow> \<lparr>status = 400, body = Message msg_login_no_user\<rparr>
               | Some u \<Rightarrow>
                   (case compare_call e pw (password u) of
                      Inl err \<Rightarrow> \<lparr>status = 500, body = Message msg_login_server_error\<rparr>
                    | Inr isMatch \<Rightarrow>
                        if \<not> isMatch
                        then \<lparr>status = 400, body = Message msg_login_bad_password\<rparr>
                        else let token = jwt_sign e (uid u) (JWT_SECRET e) 3600 (now e)
                             in \<lparr>status = 200, body = TokenMessage token msg_login_ok\<rparr>))
     | _ \<Rightarrow> \<lparr>status = 400, body = Message msg_enter_email_password\<rparr>)"

subsection \<open>POST /api/chatbot (lines 186 to 213)\<close>

text \<open>
  The body of the \<^verbatim>\<open>try\<close> block, statement by statement. The result is the reply or the
  error thrown, with the store as the statements run so far have left it and the calls made
  to the completion API. Line 194 throws a TypeError when \<^verbatim>\<open>user\<close> is \<^verbatim>\<open>null\<close>; line 199
  throws a ReferenceError when \<^verbatim>\<open>Conversation\<close> is not bound; on line 203 the argument
  \<^verbatim>\<open>user.systemRole\<close> is evaluated, and throws a TypeError when \<^verbatim>\<open>user\<close> is \<^verbatim>\<open>null\<close>, before
  \<^verbatim>\<open>getChatGPTResponse\<close> is entered.
\<close>

definition chatbot_try ::
  "env \<Rightarrow> store \<Rightarrow> jwt_payload \<Rightarrow> chat_body
     \<Rightarrow> (error + string) \<times> store \<times> completion_request list" where
  "chatbot_try e s req_user b =
    (let userId = pid req_user;
         user = findById s userId;
         saved = (if truthy (cb_systemRole b)
                  then (case user of
                          None \<Rightarrow> Inl TypeError
                        | Some u \<Rightarrow>
                            let u' = u\<lparr>systemRole := cb_systemRole b\<rparr>
                            in Inr (Some u', save_user s u'))
                  else Inr (user, s))
     in case saved of
          Inl err \<Rightarrow> (Inl err, s, [])
        | Inr (user1, s1) \<Rightarrow>
            if ''Conversation'' \<notin> set (declared e) then (Inl ReferenceError, s1, [])
            else
              let conversation = find_conversations s1 userId;
                  history = map (\<lambda>c. \<lparr>role = role c, content = content c\<rparr>) conversation
                              @ [\<lparr>role = ''user'', content = cb_message b\<rparr>]
              in (case user1 of
                    None \<Rightarrow> (Inl TypeError, s1, [])
                  | Some u \<Rightarrow>
                      (case getChatGPTResponse e history (systemRole u) of
                         (Inl err, calls) \<Rightarrow> (Inl err, s1, calls)
                       | (Inr botResponse, calls) \<Rightarrow>
                           let s2 = insert_conversation s1
                                      \<lparr>role = ''user'', content = cb_message b,
                                       userId = userId\<rparr>;
                               s3 = insert_conversation s2
                                      \<lparr>role = ''assistant'', content = botResponse,
                                       userId = userId\<rparr>
                           in (Inr botResponse, s3, calls))))"

definition chatbot_handler ::
  "env \<Rightarrow> store \<Rightarrow> jwt_payload \<Rightarrow> chat_body \<Rightarrow> response \<times> store \<times> completion_request list" where
  "chatbot_handler e s req_user b =
    (case chatbot_try e s req_user b of
       (Inr botResponse, s', calls) \<Rightarrow>
         (\<lparr>status = 200, body = ChatResponse botResponse\<rparr>, s', calls)
     | (Inl err, s', calls) \<Rightarrow>
         (\<lparr>status = 500, body = Message msg_chatbot_error\<rparr>, s', calls))"

definition post_api_chatbot ::
  "env \<Rightarrow> store \<Rightarrow> string option \<Rightarrow> chat_body
     \<Rightarrow> response \<times> store \<times> completion_request list" where
  "post_api_chatbot e s h b =
    (case authenticateToken e h of
       Inl r \<Rightarrow> (r, s, [])
     | Inr verified \<Rightarrow> chatbot_handler e s verified b)"


subsection \<open>A small environment to run the handlers in\<close>

text \<open>
  An instance of \<open>env\<close> for running the handlers on concrete requests. Its token format is
  \<^verbatim>\<open>id.iat.exp.secret\<close> with the numbers in unary; \<open>sample_verify\<close> accepts a token that parses,
  carries the secret given and has not reached its \<^verbatim>\<open>exp\<close>, as \<^verbatim>\<open>jwt.verify\<close> does.
\<close>

definition unary :: "nat \<Rightarrow> string" where
  "unary n = replicate n (CHR ''1'')"

definition sample_sign :: "oid \<Rightarrow> string \<Rightarrow> nat \<Rightarrow> nat \<Rightarrow> string" where
  "sample_sign i secret ttl t =
     unary i @ ''.'' @ unary t @ ''.'' @ unary (t + ttl) @ ''.'' @ secret"

fun split_field :: "string \<Rightarrow> (nat \<times> string) option" where
  "split_field [] = None"
| "split_field (c # cs) =
     (if c = CHR ''.'' then Some (0, cs)
      else if c = CHR ''1'' then map_option (\<lambda>(n, r). (Suc n, r)) (split_field cs)
      else None)"

definition sample_verify :: "string \<Rightarrow> string \<Rightarrow> nat \<Rightarrow> jwt_payload option" where
  "sample_verify tok secret t =
    (case split_field tok of
       None \<Rightarrow> None
     | Some (i, r1) \<Rightarrow>
        (case split_field r1 of
           None \<Rightarrow> None
         | Some (t0, r2) \<Rightarrow>
            (case split_field r2 of
               None \<Rightarrow> None
             | Some (ex, sig) \<Rightarrow>
                 if sig = secret \<and> t < ex then Some \<lparr>pid = i, iat = t0, exp = ex\<rparr>
                 else None)))"

definition sample_env :: "string list \<Rightarrow> nat \<Rightarrow> (completion_request \<Rightarrow> string option) \<Rightarrow> env" where
  "sample_env ds t api =
    \<lparr>declared = ds, JWT_SECRET = ''s'', now = t,
     jwt_sign = sample_sign, jwt_verify = sample_verify,
     bcrypt_hash = (\<lambda>pw cost. CHR ''#'' # pw),
     bcrypt_compare = (\<lambda>pw h. h = CHR ''#'' # pw),
     openai_create = api\<rparr>"

definition alice :: user where
  "alice = \<lparr>uid = 1, name = ''alice'', email = ''a@x'', password = ''#pw'',
            systemRole = None\<rparr>"


section \<open>Properties\<close>

subsection \<open>Facts about the store and string operations\<close>

lemma findOne_email_present:
  "em \<in> email ` set (users s) \<Longrightarrow> \<exists>u. findOne_email s em = Some u"
  by (cases "findOne_email s em") (auto simp: findOne_email_def find_None_iff)

text \<open>\<open>str_includes\<close> is the substring test.\<close>

lemma str_includes_iff: "str_includes s pat \<longleftrightarrow> (\<exists>ps ss. s = ps @ pat @ ss)"
proof (induction s)
  case Nil
  then show ?case by auto
next
  case (Cons c cs)
  show ?case
  proof
    assume "str_includes (c # cs) pat"
    then consider "prefix pat (c # cs)" | "str_includes cs pat" by auto
    then show "\<exists>ps ss. c # cs = ps @ pat @ ss"
    proof cases
      case 1
      then obtain ss where "c # cs = pat @ ss" by (auto simp: prefix_def)
      then have "c # cs = [] @ pat @ ss" by simp
      then show ?thesis by blast
    next
      case 2
      with Cons.IH obtain ps ss where "cs = ps @ pat @ ss" by blast
      then have "c # cs = (c # ps) @ pat @ ss" by simp
      then show ?thesis by blast
    qed
  next
    assume "\<exists>ps ss. c # cs = ps @ pat @ ss"
    then obtain ps ss where eq: "c # cs = ps @ pat @ ss" by blast
    show "str_includes (c # cs) pat"
    proof (cases ps)
      case Nil
      with eq have "prefix pat (c # cs)" by (simp add: prefix_def)
      then show ?thesis by simp
    next
      case (Cons p ps')
      with eq have "cs = ps' @ pat @ ss" by simp
      with Cons.IH have "str_includes cs pat" by blast
      then show ?thesis by simp
    qed
  qed
qed

lemma replace_absent: "\<not> str_includes s pat \<Longrightarrow> replace s pat rep = s"
  by (induction s) auto

lemma replace_at_front: "pat \<noteq> [] \<Longrightarrow> replace (pat @ s) pat rep = rep @ s"
  by (cases pat) auto

lemma header_token_Bearer: "header_token (Some (''Bearer '' @ tok)) = Some tok"
  using replace_at_front [of "''Bearer ''" tok "[]"] by (simp add: header_token_def)

text \<open>The sample token format satisfies the contract of sign and verify.\<close>

lemma split_field_unary: "split_field (unary n @ CHR ''.'' # r) = Some (n, r)"
  by (induction n) (simp_all add: unary_def)

lemma sample_verify_sign:
  "sample_verify (sample_sign i secret ttl t0) secret t
     = (if t < t0 + ttl then Some \<lparr>pid = i, iat = t0, exp = t0 + ttl\<rparr> else None)"
  by (simp add: sample_verify_def sample_sign_def split_field_unary)

lemma sample_sign_nonempty: "sample_sign i secret ttl t0 \<noteq> []"
  by (simp add: sample_sign_def)

subsection \<open>Registration\<close>

text \<open>
  C3. A register request whose email is already the email of a stored user is answered with
  status 400, and the store after the request is the store before it: no second user record
  is created.
\<close>

theorem register_duplicate_email:
  assumes "rb_email b = Some em" and "em \<in> email ` set (users s)"
  shows "status (fst (register_handler e s b)) = 400 \<and> snd (register_handler e s b) = s"
proof -
  from assms(2) obtain u where "findOne_email s em = Some u"
    using findOne_email_present by blast
  with assms(1) show ?thesis
    by (simp add: register_handler_def split: option.splits)
qed

theorem register_duplicate_email_witness:
  "rb_email \<lparr>rb_name = Some ''eve'', rb_email = Some ''a@x'', rb_password = Some (Str ''pw2'')\<rparr>
     = Some ''a@x''
   \<and> ''a@x'' \<in> email ` set (users \<lparr>users = [alice], conversations = []\<rparr>)
   \<and> status (fst (register_handler (sample_env index_js_declared 100 (\<lambda>r. None))
         \<lparr>users = [alice], conversations = []\<rparr>
         \<lparr>rb_name = Some ''eve'', rb_email = Some ''a@x'', rb_password = Some (Str ''pw2'')\<rparr>)) = 400
   \<and> snd (register_handler (sample_env index_js_declared 100 (\<lambda>r. None))
         \<lparr>users = [alice], conversations = []\<rparr>
         \<lparr>rb_name = Some ''eve'', rb_email = Some ''a@x'', rb_password = Some (Str ''pw2'')\<rparr>)
       = \<lparr>users = [alice], conversations = []\<rparr>"
proof -
  have h1: "rb_email \<lparr>rb_name = Some ''eve'', rb_email = Some ''a@x'',
                      rb_password = Some (Str ''pw2'')\<rparr> = Some ''a@x''"
    by simp
  have h2: "''a@x'' \<in> email ` set (users \<lparr>users = [alice], conversations = []\<rparr>)"
    by (simp add: alice_def)
  show ?thesis
    using register_duplicate_email
            [OF h1 h2, of "sample_env index_js_declared 100 (\<lambda>r. None)"] h1 h2
    by simp
qed

subsection \<open>Login\<close>

text \<open>
  For passwords that are strings, the two failures of a login are answered alike: a request
  that names a stored email with a non-empty password \<^verbatim>\<open>bcrypt.compare\<close> rejects, and a
  request that names an email no user has with a non-empty password, get the same response
  (the literals of lines 169 and 174 are the same bytes).
\<close>

lemma login_string_password_failures:
  assumes "lb_email b1 = Some em1" and "em1 \<noteq> []" and "findOne_email s em1 = Some u"
    and "lb_password b1 = Some (Str pw1)" and "pw1 \<noteq> []"
    and "\<not> bcrypt_compare e pw1 (password u)"
    and "lb_email b2 = Some em2" and "em2 \<noteq> []" and "findOne_email s em2 = None"
    and "lb_password b2 = Some (Str pw2)" and "pw2 \<noteq> []"
  shows "login_handler e s b1 = \<lparr>status = 400, body = Message msg_login_bad_password\<rparr>"
    and "login_handler e s b2 = \<lparr>status = 400, body = Message msg_login_no_user\<rparr>"
    and "login_handler e s b1 = login_handler e s b2"
proof -
  have same: "msg_login_no_user = msg_login_bad_password"
    by (simp add: msg_login_no_user_def msg_login_bad_password_def)
  show r1: "login_handler e s b1 = \<lparr>status = 400, body = Message msg_login_bad_password\<rparr>"
    using assms(1-6) by (simp add: login_handler_def compare_call_def)
  show r2: "login_handler e s b2 = \<lparr>status = 400, body = Message msg_login_no_user\<rparr>"
    using assms(7-11) by (simp add: login_handler_def)
  from r1 r2 same show "login_handler e s b1 = login_handler e s b2" by simp
qed

text \<open>
  A stored email is answered 500 as soon as \<^verbatim>\<open>bcrypt.compare\<close> throws, which it does on a
  truthy password that is not a string; an email no user has is answered 400 before the
  password is looked at.
\<close>

lemma login_non_string_password:
  assumes "lb_email b = Some em" and "em \<noteq> []" and "lb_password b = Some pw"
    and "truthy_value pw" and "\<forall>x. pw \<noteq> Str x"
  shows "login_handler e s b =
    (case findOne_email s em of
       None \<Rightarrow> \<lparr>status = 400, body = Message msg_login_no_user\<rparr>
     | Some u \<Rightarrow> \<lparr>status = 500, body = Message msg_login_server_error\<rparr>)"
  using assms
  by (cases pw) (simp_all add: login_handler_def compare_call_def split: option.splits)

text \<open>
  C4, at a concrete pair of requests. The store holds alice (email \<^verbatim>\<open>a@x\<close>). Both requests
  carry the password \<^verbatim>\<open>12345\<close>, a JSON number, which is not her password. The request that names
  her email is answered 500 with the message of line 181: \<^verbatim>\<open>bcrypt.compare\<close> throws on the
  number and the catch of line 179 answers. The request that names an email no user has is
  answered 400 with the message of line 169. The two responses differ in status and in
  message, and tell the client which of the two emails is registered.
\<close>

theorem login_failures_distinguishable:
  "findOne_email \<lparr>users = [alice], conversations = []\<rparr> ''a@x'' = Some alice
   \<and> findOne_email \<lparr>users = [alice], conversations = []\<rparr> ''b@x'' = None
   \<and> login_handler (sample_env index_js_declared 100 (\<lambda>r. None))
        \<lparr>users = [alice], conversations = []\<rparr>
        \<lparr>lb_email = Some ''a@x'', lb_password = Some (Num 12345)\<rparr>
      = \<lparr>status = 500, body = Message msg_login_server_error\<rparr>
   \<and> login_handler (sample_env index_js_declared 100 (\<lambda>r. None))
        \<lparr>users = [alice], conversations = []\<rparr>
        \<lparr>lb_email = Some ''b@x'', lb_password = Some (Num 12345)\<rparr>
      = \<lparr>status = 400, body = Message msg_login_no_user\<rparr>
   \<and> msg_login_server_error \<noteq> msg_login_no_user"
  by (simp add: login_handler_def compare_call_def findOne_email_def alice_def
        msg_login_server_error_def msg_login_no_user_def)

subsection \<open>The authentication middleware\<close>

text \<open>
  C5. On \<^verbatim>\<open>GET /api/users\<close> and on \<^verbatim>\<open>POST /api/chatbot\<close>: when the request carries no token
  (no Authorization header, or one that leaves the empty string), the response is 401, the
  store is untouched and nothing is sent to the completion API, so the handler has not run;
  when it carries a token that \<^verbatim>\<open>jwt.verify\<close> rejects, the response is 403 in the same way;
  otherwise the verified payload becomes \<^verbatim>\<open>req.user\<close> and the route's handler runs with it.
\<close>

theorem auth_gate:
  "(\<not> truthy (header_token h) \<longrightarrow>
       authenticateToken e h = Inl \<lparr>status = 401, body = Message msg_no_token\<rparr>
     \<and> get_api_users e s h = \<lparr>status = 401, body = Message msg_no_token\<rparr>
     \<and> post_api_chatbot e s h b = (\<lparr>status = 401, body = Message msg_no_token\<rparr>, s, []))
   \<and> (\<forall>tok. header_token h = Some tok \<and> tok \<noteq> []
          \<and> jwt_verify e tok (JWT_SECRET e) (now e) = None \<longrightarrow>
       authenticateToken e h = Inl \<lparr>status = 403, body = Message msg_invalid_token\<rparr>
     \<and> get_api_users e s h = \<lparr>status = 403, body = Message msg_invalid_token\<rparr>
     \<and> post_api_chatbot e s h b
         = (\<lparr>status = 403, body = Message msg_invalid_token\<rparr>, s, []))
   \<and> (\<forall>tok v. header_token h = Some tok \<and> tok \<noteq> []
          \<and> jwt_verify e tok (JWT_SECRET e) (now e) = Some v \<longrightarrow>
       authenticateToken e h = Inr v
     \<and> get_api_users e s h = users_handler s
     \<and> post_api_chatbot e s h b = chatbot_handler e s v b)"
  by (auto simp: authenticateToken_def get_api_users_def post_api_chatbot_def truthy_def
           split: option.splits)

theorem auth_gate_witness:
  "get_api_users (sample_env index_js_declared 3 (\<lambda>r. None))
      \<lparr>users = [alice], conversations = []\<rparr> None
     = \<lparr>status = 401, body = Message msg_no_token\<rparr>
   \<and> post_api_chatbot (sample_env index_js_declared 3 (\<lambda>r. None))
      \<lparr>users = [alice], conversations = []\<rparr> (Some ''Bearer '')
      \<lparr>cb_message = ''hi'', cb_systemRole = None\<rparr>
     = (\<lparr>status = 401, body = Message msg_no_token\<rparr>,
        \<lparr>users = [alice], conversations = []\<rparr>, [])
   \<and> post_api_chatbot (sample_env index_js_declared 3 (\<lambda>r. None))
      \<lparr>users = [alice], conversations = []\<rparr> (Some ''Bearer junk'')
      \<lparr>cb_message = ''hi'', cb_systemRole = None\<rparr>
     = (\<lparr>status = 403, body = Message msg_invalid_token\<rparr>,
        \<lparr>users = [alice], conversations = []\<rparr>, [])
   \<and> get_api_users (sample_env index_js_declared 9 (\<lambda>r. None))
      \<lparr>users = [alice], conversations = []\<rparr> (Some ''Bearer 1.1.11111.s'')
     = \<lparr>status = 403, body = Message msg_invalid_token\<rparr>
   \<and> authenticateToken (sample_env index_js_declared 3 (\<lambda>r. None))
      (Some ''Bearer 1.1.11111.s'') = Inr \<lparr>pid = 1, iat = 1, exp = 5\<rparr>
   \<and> get_api_users (sample_env index_js_declared 3 (\<lambda>r. None))
      \<lparr>users = [alice], conversations = []\<rparr> (Some ''Bearer 1.1.11111.s'')
     = users_handler \<lparr>users = [alice], conversations = []\<rparr>"
proof -
  let ?e = "sample_env index_js_declared 3 (\<lambda>r. None)"
  let ?late = "sample_env index_js_declared 9 (\<lambda>r. None)"
  let ?s = "\<lparr>users = [alice], conversations = []\<rparr>"
  let ?b = "\<lparr>cb_message = ''hi'', cb_systemRole = None\<rparr>"
  have t0: "\<not> truthy (header_token None)" "\<not> truthy (header_token (Some ''Bearer ''))"
    by (simp_all add: truthy_def header_token_def)
  have t1: "header_token (Some ''Bearer junk'') = Some ''junk''"
    "header_token (Some ''Bearer 1.1.11111.s'') = Some ''1.1.11111.s''"
    by (simp_all add: header_token_def)
  have v1: "jwt_verify ?e ''junk'' (JWT_SECRET ?e) (now ?e) = None"
    "jwt_verify ?late ''1.1.11111.s'' (JWT_SECRET ?late) (now ?late) = None"
    "jwt_verify ?e ''1.1.11111.s'' (JWT_SECRET ?e) (now ?e)
       = Some \<lparr>pid = 1, iat = 1, exp = 5\<rparr>"
    by (simp_all add: sample_env_def sample_verify_def)
  show ?thesis
    using auth_gate [of None ?e ?s ?b] auth_gate [of "Some ''Bearer ''" ?e ?s ?b]
      auth_gate [of "Some ''Bearer junk''" ?e ?s ?b]
      auth_gate [of "Some ''Bearer 1.1.11111.s''" ?late ?s ?b]
      auth_gate [of "Some ''Bearer 1.1.11111.s''" ?e ?s ?b] t0 t1 v1
    by simp
qed

text \<open>
  C10, as stated, at a concrete header. The header \<^verbatim>\<open>1.1.Bearer 11111.s\<close> does not begin with
  \<^verbatim>\<open>Bearer \<close>, and as a token it is rejected by \<open>jwt_verify\<close>. The middleware accepts it all
  the same: \<^verbatim>\<open>replace\<close> deletes the occurrence of \<^verbatim>\<open>Bearer \<close> in the middle, and what is
  verified is \<^verbatim>\<open>1.1.11111.s\<close>, not the header value.
\<close>

theorem header_inner_Bearer_counterexample:
  "\<not> prefix ''Bearer '' ''1.1.Bearer 11111.s''
   \<and> header_token (Some ''1.1.Bearer 11111.s'') = Some ''1.1.11111.s''
   \<and> jwt_verify (sample_env index_js_declared 3 (\<lambda>r. None)) ''1.1.Bearer 11111.s''
        (JWT_SECRET (sample_env index_js_declared 3 (\<lambda>r. None)))
        (now (sample_env index_js_declared 3 (\<lambda>r. None))) = None
   \<and> authenticateToken (sample_env index_js_declared 3 (\<lambda>r. None))
        (Some ''1.1.Bearer 11111.s'') = Inr \<lparr>pid = 1, iat = 1, exp = 5\<rparr>"
  by (simp add: authenticateToken_def header_token_def sample_env_def sample_verify_def)

text \<open>
  C10, amended. For every Authorization header value in which \<^verbatim>\<open>Bearer \<close> does not occur
  anywhere, the token the middleware verifies is the entire header value, and the middleware
  answers exactly as it does for the same value sent behind the prefix \<^verbatim>\<open>Bearer \<close>. A signed
  token holds no space, so a valid token sent bare is accepted as it is with the prefix.
\<close>

theorem bare_token_header:
  assumes "\<not> str_includes h ''Bearer ''"
  shows "header_token (Some h) = Some h
    \<and> authenticateToken e (Some h) = authenticateToken e (Some (''Bearer '' @ h))"
proof -
  have "header_token (Some h) = Some h"
    using assms by (simp add: header_token_def replace_absent)
  moreover have "header_token (Some (''Bearer '' @ h)) = Some h"
    by (rule header_token_Bearer)
  ultimately show ?thesis by (simp add: authenticateToken_def)
qed

theorem bare_token_header_witness:
  "\<not> str_includes ''1.1.11111.s'' ''Bearer ''
   \<and> header_token (Some ''1.1.11111.s'') = Some ''1.1.11111.s''
   \<and> authenticateToken (sample_env index_js_declared 3 (\<lambda>r. None)) (Some ''1.1.11111.s'')
       = authenticateToken (sample_env index_js_declared 3 (\<lambda>r. None))
           (Some ''Bearer 1.1.11111.s'')
   \<and> authenticateToken (sample_env index_js_declared 3 (\<lambda>r. None)) (Some ''1.1.11111.s'')
       = Inr \<lparr>pid = 1, iat = 1, exp = 5\<rparr>"
proof -
  have h: "\<not> str_includes ''1.1.11111.s'' ''Bearer ''" by simp
  have a: "authenticateToken (sample_env index_js_declared 3 (\<lambda>r. None))
             (Some ''Bearer 1.1.11111.s'') = Inr \<lparr>pid = 1, iat = 1, exp = 5\<rparr>"
    by (simp add: authenticateToken_def header_token_def sample_env_def sample_verify_def)
  show ?thesis
    using bare_token_header [OF h, of "sample_env index_js_declared 3 (\<lambda>r. None)"] h a
    by simp
qed

subsection \<open>Issued tokens\<close>

text \<open>
  The token of a successful registration or login is signed for the id of the user, with the
  secret the middleware verifies with and \<^verbatim>\<open>expiresIn: '1h'\<close>, that is 3600 seconds.
\<close>

lemma register_success:
  assumes "body (fst (register_handler e s rb)) = TokenMessage tok m"
  shows "\<exists>n em pw. rb_name rb = Some n \<and> rb_email rb = Some em
     \<and> rb_password rb = Some (Str pw)
     \<and> tok = jwt_sign e (new_oid s) (JWT_SECRET e) 3600 (now e)
     \<and> users (snd (register_handler e s rb))
         = users s @ [\<lparr>uid = new_oid s, name = n, email = em,
                        password = bcrypt_hash e pw 10, systemRole = None\<rparr>]"
  using assms
  by (auto simp: register_handler_def hash_call_def insert_user_def Let_def
           split: option.splits if_splits jsvalue.splits)

lemma login_success:
  assumes "body (login_handler e s lb) = TokenMessage tok m"
  shows "\<exists>em u. lb_email lb = Some em \<and> findOne_email s em = Some u
     \<and> tok = jwt_sign e (uid u) (JWT_SECRET e) 3600 (now e)"
  using assms
  by (auto simp: login_handler_def compare_call_def Let_def
           split: option.splits if_splits jsvalue.splits)

lemma findOne_email_Some: "findOne_email s em = Some u \<Longrightarrow> email u = em \<and> u \<in> set (users s)"
  by (auto simp: findOne_email_def find_Some_iff)

lemma authenticate_issued:
  assumes vs: "\<And>i t0 t. jwt_verify e (jwt_sign e i (JWT_SECRET e) 3600 t0) (JWT_SECRET e) t
                = (if t < t0 + 3600 then Some \<lparr>pid = i, iat = t0, exp = t0 + 3600\<rparr> else None)"
    and ne: "\<And>i t0. jwt_sign e i (JWT_SECRET e) 3600 t0 \<noteq> []"
  shows "authenticateToken (e\<lparr>now := t\<rparr>)
           (Some (''Bearer '' @ jwt_sign e i (JWT_SECRET e) 3600 t0))
         = (if t < t0 + 3600 then Inr \<lparr>pid = i, iat = t0, exp = t0 + 3600\<rparr>
            else Inl \<lparr>status = 403, body = Message msg_invalid_token\<rparr>)"
  unfolding authenticateToken_def header_token_Bearer
  using vs [of i t0 t] ne [of i t0] by simp

text \<open>
  C6. Let \<^verbatim>\<open>jwt.verify\<close> accept a token that \<^verbatim>\<open>jwt.sign\<close> made with the same secret and a
  lifetime of 3600 seconds exactly while the clock is before the token's \<^verbatim>\<open>exp\<close>, and let
  signed tokens be non-empty. Then the token that register or login issues at time \<open>now e\<close>,
  sent as \<^verbatim>\<open>Bearer <token>\<close>, passes the middleware at every time before \<open>now e + 3600\<close> with
  the id of the registered (or logged-in) user as \<^verbatim>\<open>req.user.id\<close>, and is answered 403 at
  every time after \<open>now e + 3600\<close>.
\<close>

theorem issued_token_expiry:
  assumes vs: "\<And>i t0 t. jwt_verify e (jwt_sign e i (JWT_SECRET e) 3600 t0) (JWT_SECRET e) t
                = (if t < t0 + 3600 then Some \<lparr>pid = i, iat = t0, exp = t0 + 3600\<rparr> else None)"
    and ne: "\<And>i t0. jwt_sign e i (JWT_SECRET e) 3600 t0 \<noteq> []"
  shows "(body (fst (register_handler e s rb)) = TokenMessage tok m \<longrightarrow>
          (\<exists>u. users (snd (register_handler e s rb)) = users s @ [u]
             \<and> rb_email rb = Some (email u)
             \<and> (\<forall>t. t < now e + 3600 \<longrightarrow>
                   authenticateToken (e\<lparr>now := t\<rparr>) (Some (''Bearer '' @ tok))
                     = Inr \<lparr>pid = uid u, iat = now e, exp = now e + 3600\<rparr>)
             \<and> (\<forall>t. now e + 3600 < t \<longrightarrow>
                   authenticateToken (e\<lparr>now := t\<rparr>) (Some (''Bearer '' @ tok))
                     = Inl \<lparr>status = 403, body = Message msg_invalid_token\<rparr>)))
       \<and> (body (login_handler e s lb) = TokenMessage tok' m' \<longrightarrow>
          (\<exists>u. u \<in> set (users s) \<and> lb_email lb = Some (email u)
             \<and> findOne_email s (email u) = Some u
             \<and> (\<forall>t. t < now e + 3600 \<longrightarrow>
                   authenticateToken (e\<lparr>now := t\<rparr>) (Some (''Bearer '' @ tok'))
                     = Inr \<lparr>pid = uid u, iat = now e, exp = now e + 3600\<rparr>)
             \<and> (\<forall>t. now e + 3600 < t \<longrightarrow>
                   authenticateToken (e\<lparr>now := t\<rparr>) (Some (''Bearer '' @ tok'))
                     = Inl \<lparr>status = 403, body = Message msg_invalid_token\<rparr>)))"
proof (intro conjI impI)
  assume "body (fst (register_handler e s rb)) = TokenMessage tok m"
  from register_success [OF this] obtain n em pw where
    r: "rb_email rb = Some em" "tok = jwt_sign e (new_oid s) (JWT_SECRET e) 3600 (now e)"
       "users (snd (register_handler e s rb))
         = users s @ [\<lparr>uid = new_oid s, name = n, email = em,
                        password = bcrypt_hash e pw 10, systemRole = None\<rparr>]"
    by blast
  let ?u = "\<lparr>uid = new_oid s, name = n, email = em,
             password = bcrypt_hash e pw 10, systemRole = None\<rparr>"
  have "users (snd (register_handler e s rb)) = users s @ [?u]" by (rule r(3))
  moreover have "rb_email rb = Some (email ?u)" using r(1) by simp
  moreover have "\<forall>t. t < now e + 3600 \<longrightarrow>
       authenticateToken (e\<lparr>now := t\<rparr>) (Some (''Bearer '' @ tok))
         = Inr \<lparr>pid = uid ?u, iat = now e, exp = now e + 3600\<rparr>"
    unfolding r(2) using authenticate_issued [OF vs ne, of _ "new_oid s" "now e"] by simp
  moreover have "\<forall>t. now e + 3600 < t \<longrightarrow>
       authenticateToken (e\<lparr>now := t\<rparr>) (Some (''Bearer '' @ tok))
         = Inl \<lparr>status = 403, body = Message msg_invalid_token\<rparr>"
    unfolding r(2) using authenticate_issued [OF vs ne, of _ "new_oid s" "now e"] by simp
  ultimately show "\<exists>u. users (snd (register_handler e s rb)) = users s @ [u]
             \<and> rb_email rb = Some (email u)
             \<and> (\<forall>t. t < now e + 3600 \<longrightarrow>
                   authenticateToken (e\<lparr>now := t\<rparr>) (Some (''Bearer '' @ tok))
                     = Inr \<lparr>pid = uid u, iat = now e, exp = now e + 3600\<rparr>)
             \<and> (\<forall>t. now e + 3600 < t \<longrightarrow>
                   authenticateToken (e\<lparr>now := t\<rparr>) (Some (''Bearer '' @ tok))
                     = Inl \<lparr>status = 403, body = Message msg_invalid_token\<rparr>)"
    by blast
next
  assume "body (login_handler e s lb) = TokenMessage tok' m'"
  from login_success [OF this] obtain em u where
    l: "lb_email lb = Some em" "findOne_email s em = Some u"
       "tok' = jwt_sign e (uid u) (JWT_SECRET e) 3600 (now e)"
    by blast
  from findOne_email_Some [OF l(2)] have eu: "email u = em" "u \<in> set (users s)" by simp_all
  have "\<forall>t. t < now e + 3600 \<longrightarrow>
       authenticateToken (e\<lparr>now := t\<rparr>) (Some (''Bearer '' @ tok'))
         = Inr \<lparr>pid = uid u, iat = now e, exp = now e + 3600\<rparr>"
    unfolding l(3) using authenticate_issued [OF vs ne, of _ "uid u" "now e"] by simp
  moreover have "\<forall>t. now e + 3600 < t \<longrightarrow>
       authenticateToken (e\<lparr>now := t\<rparr>) (Some (''Bearer '' @ tok'))
         = Inl \<lparr>status = 403, body = Message msg_invalid_token\<rparr>"
    unfolding l(3) using authenticate_issued [OF vs ne, of _ "uid u" "now e"] by simp
  ultimately show "\<exists>u. u \<in> set (users s) \<and> lb_email lb = Some (email u)
             \<and> findOne_email s (email u) = Some u
             \<and> (\<forall>t. t < now e + 3600 \<longrightarrow>
                   authenticateToken (e\<lparr>now := t\<rparr>) (Some (''Bearer '' @ tok'))
                     = Inr \<lparr>pid = uid u, iat = now e, exp = now e + 3600\<rparr>)
             \<and> (\<forall>t. now e + 3600 < t \<longrightarrow>
                   authenticateToken (e\<lparr>now := t\<rparr>) (Some (''Bearer '' @ tok'))
                     = Inl \<lparr>status = 403, body = Message msg_invalid_token\<rparr>)"
    using l(1,2) eu by blast
qed


theorem issued_token_expiry_witness:
  "(\<exists>tok m. body (fst (register_handler (sample_env index_js_declared 100 (\<lambda>r. None))
                \<lparr>users = [alice], conversations = []\<rparr>
                \<lparr>rb_name = Some ''bob'', rb_email = Some ''b@x'', rb_password = Some (Str ''pw2'')\<rparr>))
              = TokenMessage tok m
      \<and> authenticateToken (sample_env index_js_declared 3699 (\<lambda>r. None))
           (Some (''Bearer '' @ tok)) = Inr \<lparr>pid = 2, iat = 100, exp = 3700\<rparr>
      \<and> authenticateToken (sample_env index_js_declared 3701 (\<lambda>r. None))
           (Some (''Bearer '' @ tok))
          = Inl \<lparr>status = 403, body = Message msg_invalid_token\<rparr>)
   \<and> (\<exists>tok m. body (login_handler (sample_env index_js_declared 100 (\<lambda>r. None))
                \<lparr>users = [alice], conversations = []\<rparr>
                \<lparr>lb_email = Some ''a@x'', lb_password = Some (Str ''pw'')\<rparr>)
              = TokenMessage tok m
      \<and> authenticateToken (sample_env index_js_declared 3699 (\<lambda>r. None))
           (Some (''Bearer '' @ tok)) = Inr \<lparr>pid = 1, iat = 100, exp = 3700\<rparr>
      \<and> authenticateToken (sample_env index_js_declared 3701 (\<lambda>r. None))
           (Some (''Bearer '' @ tok))
          = Inl \<lparr>status = 403, body = Message msg_invalid_token\<rparr>)"
proof -
  let ?e = "sample_env index_js_declared 100 (\<lambda>r. None)"
  let ?s = "\<lparr>users = [alice], conversations = []\<rparr>"
  let ?rb = "\<lparr>rb_name = Some ''bob'', rb_email = Some ''b@x'', rb_password = Some (Str ''pw2'')\<rparr>"
  let ?lb = "\<lparr>lb_email = Some ''a@x'', lb_password = Some (Str ''pw'')\<rparr>"
  let ?t1 = "sample_sign 2 ''s'' 3600 100"
  let ?t2 = "sample_sign 1 ''s'' 3600 100"
  have vs: "\<And>i t0 t. jwt_verify ?e (jwt_sign ?e i (JWT_SECRET ?e) 3600 t0) (JWT_SECRET ?e) t
              = (if t < t0 + 3600 then Some \<lparr>pid = i, iat = t0, exp = t0 + 3600\<rparr> else None)"
    by (simp add: sample_env_def sample_verify_sign)
  have ne: "\<And>i t0. jwt_sign ?e i (JWT_SECRET ?e) 3600 t0 \<noteq> []"
    by (simp add: sample_env_def sample_sign_nonempty)
  have later: "?e\<lparr>now := 3699\<rparr> = sample_env index_js_declared 3699 (\<lambda>r. None)"
    "?e\<lparr>now := 3701\<rparr> = sample_env index_js_declared 3701 (\<lambda>r. None)"
    by (simp_all add: sample_env_def)
  have reg: "register_handler ?e ?s ?rb
      = (\<lparr>status = 201, body = TokenMessage ?t1 msg_registered\<rparr>,
         \<lparr>users = [alice, \<lparr>uid = 2, name = ''bob'', email = ''b@x'', password = ''#pw2'',
                           systemRole = None\<rparr>], conversations = []\<rparr>)"
    by (simp add: register_handler_def hash_call_def findOne_email_def alice_def new_oid_def
          insert_user_def sample_env_def numeral_2_eq_2)
  have log: "login_handler ?e ?s ?lb = \<lparr>status = 200, body = TokenMessage ?t2 msg_login_ok\<rparr>"
    by (simp add: login_handler_def compare_call_def findOne_email_def alice_def
          sample_env_def)
  note inst = issued_token_expiry [OF vs ne, of ?s ?rb ?t1 msg_registered ?lb ?t2 msg_login_ok]
  from inst reg obtain u where
    u: "[alice, \<lparr>uid = 2, name = ''bob'', email = ''b@x'', password = ''#pw2'',
                 systemRole = None\<rparr>] = [alice] @ [u]"
       "\<forall>t. t < now ?e + 3600 \<longrightarrow> authenticateToken (?e\<lparr>now := t\<rparr>) (Some (''Bearer '' @ ?t1))
            = Inr \<lparr>pid = uid u, iat = now ?e, exp = now ?e + 3600\<rparr>"
       "\<forall>t. now ?e + 3600 < t \<longrightarrow> authenticateToken (?e\<lparr>now := t\<rparr>) (Some (''Bearer '' @ ?t1))
            = Inl \<lparr>status = 403, body = Message msg_invalid_token\<rparr>"
    by auto
  from u(1) have uid2: "uid u = 2" by auto
  have n: "now ?e = 100" by (simp add: sample_env_def)
  have r1: "authenticateToken (sample_env index_js_declared 3699 (\<lambda>r. None))
      (Some (''Bearer '' @ ?t1)) = Inr \<lparr>pid = 2, iat = 100, exp = 3700\<rparr>"
    using u(2) [rule_format, of 3699] uid2 n later(1) by simp
  have r2: "authenticateToken (sample_env index_js_declared 3701 (\<lambda>r. None))
      (Some (''Bearer '' @ ?t1)) = Inl \<lparr>status = 403, body = Message msg_invalid_token\<rparr>"
    using u(3) [rule_format, of 3701] n later(2) by simp
  from inst log obtain v where
    v: "v \<in> set (users ?s)"
       "\<forall>t. t < now ?e + 3600 \<longrightarrow> authenticateToken (?e\<lparr>now := t\<rparr>) (Some (''Bearer '' @ ?t2))
            = Inr \<lparr>pid = uid v, iat = now ?e, exp = now ?e + 3600\<rparr>"
       "\<forall>t. now ?e + 3600 < t \<longrightarrow> authenticateToken (?e\<lparr>now := t\<rparr>) (Some (''Bearer '' @ ?t2))
            = Inl \<lparr>status = 403, body = Message msg_invalid_token\<rparr>"
    by auto
  from v(1) have uid1: "uid v = 1" by (simp add: alice_def)
  have l1: "authenticateToken (sample_env index_js_declared 3699 (\<lambda>r. None))
      (Some (''Bearer '' @ ?t2)) = Inr \<lparr>pid = 1, iat = 100, exp = 3700\<rparr>"
    using v(2) [rule_format, of 3699] uid1 n later(1) by simp
  have l2: "authenticateToken (sample_env index_js_declared 3701 (\<lambda>r. None))
      (Some (''Bearer '' @ ?t2)) = Inl \<lparr>status = 403, body = Message msg_invalid_token\<rparr>"
    using v(3) [rule_format, of 3701] n later(2) by simp
  have "body (fst (register_handler ?e ?s ?rb)) = TokenMessage ?t1 msg_registered"
    using reg by simp
  with r1 r2 have A: "\<exists>tok m. body (fst (register_handler ?e ?s ?rb)) = TokenMessage tok m
      \<and> authenticateToken (sample_env index_js_declared 3699 (\<lambda>r. None))
           (Some (''Bearer '' @ tok)) = Inr \<lparr>pid = 2, iat = 100, exp = 3700\<rparr>
      \<and> authenticateToken (sample_env index_js_declared 3701 (\<lambda>r. None))
           (Some (''Bearer '' @ tok))
          = Inl \<lparr>status = 403, body = Message msg_invalid_token\<rparr>"
    by blast
  have "body (login_handler ?e ?s ?lb) = TokenMessage ?t2 msg_login_ok"
    using log by simp
  with l1 l2 have B: "\<exists>tok m. body (login_handler ?e ?s ?lb) = TokenMessage tok m
      \<and> authenticateToken (sample_env index_js_declared 3699 (\<lambda>r. None))
           (Some (''Bearer '' @ tok)) = Inr \<lparr>pid = 1, iat = 100, exp = 3700\<rparr>
      \<and> authenticateToken (sample_env index_js_declared 3701 (\<lambda>r. None))
           (Some (''Bearer '' @ tok))
          = Inl \<lparr>status = 403, body = Message msg_invalid_token\<rparr>"
    by blast
  from A B show ?thesis by blast
qed

subsection \<open>The chat handler\<close>

text \<open>
  What \<^verbatim>\<open>POST /api/chatbot\<close> does once the middleware has let the request through: for a
  user id without a stored record, and for a user id with one.
\<close>

lemma findById_Some: "findById s i = Some u \<Longrightarrow> uid u = i \<and> u \<in> set (users s)"
  by (auto simp: findById_def find_Some_iff)

lemma find_replace_doc:
  "find (\<lambda>w. uid w = uid u') us = Some u \<Longrightarrow>
   find (\<lambda>w. uid w = uid u') (replace_doc u' us) = Some u'"
  by (induction us) (auto split: if_splits)

lemma findById_save_user:
  assumes "findById s (uid u') = Some u"
  shows "findById (save_user s u') (uid u') = Some u'"
  using assms by (simp add: findById_def save_user_def find_replace_doc)

lemma chatbot_handler_absent:
  assumes "findById s (pid v) = None"
  shows "chatbot_handler e s v b
           = (\<lparr>status = 500, body = Message msg_chatbot_error\<rparr>, s, [])"
  using assms by (simp add: chatbot_handler_def chatbot_try_def Let_def)

lemma chatbot_handler_found:
  assumes "findById s (pid v) = Some u"
  shows "chatbot_handler e s v b =
    (let u1 = (if truthy (cb_systemRole b) then u\<lparr>systemRole := cb_systemRole b\<rparr> else u);
         s1 = (if truthy (cb_systemRole b) then save_user s u1 else s);
         q = completion_of
               (map (\<lambda>c. \<lparr>role = role c, content = content c\<rparr>) (find_conversations s1 (pid v))
                  @ [\<lparr>role = ''user'', content = cb_message b\<rparr>])
               (systemRole u1)
     in if ''Conversation'' \<notin> set (declared e)
        then (\<lparr>status = 500, body = Message msg_chatbot_error\<rparr>, s1, [])
        else (case openai_create e q of
                None \<Rightarrow> (\<lparr>status = 500, body = Message msg_chatbot_error\<rparr>, s1, [q])
              | Some reply \<Rightarrow>
                  (\<lparr>status = 200, body = ChatResponse reply\<rparr>,
                   insert_conversation
                     (insert_conversation s1
                        \<lparr>role = ''user'', content = cb_message b, userId = pid v\<rparr>)
                     \<lparr>role = ''assistant'', content = reply, userId = pid v\<rparr>,
                   [q])))"
  using assms
  by (simp add: chatbot_handler_def chatbot_try_def getChatGPTResponse_def Let_def
           split: option.splits)

text \<open>
  C9. A chat request whose token carries a user id that no stored User record has is answered
  with status 500; the store is left as it was, so no turn is written, and nothing is sent to
  the completion API.
\<close>

theorem chat_absent_user:
  assumes "findById s (pid v) = None"
  shows "chatbot_handler e s v b
           = (\<lparr>status = 500, body = Message msg_chatbot_error\<rparr>, s, [])"
  using assms by (rule chatbot_handler_absent)

theorem chat_absent_user_witness:
  "findById \<lparr>users = [alice], conversations = []\<rparr> (pid \<lparr>pid = 7, iat = 1, exp = 5\<rparr>) = None
   \<and> chatbot_handler (sample_env (''Conversation'' # index_js_declared) 3 (\<lambda>r. Some ''hello''))
        \<lparr>users = [alice], conversations = []\<rparr> \<lparr>pid = 7, iat = 1, exp = 5\<rparr>
        \<lparr>cb_message = ''hi'', cb_systemRole = None\<rparr>
      = (\<lparr>status = 500, body = Message msg_chatbot_error\<rparr>,
         \<lparr>users = [alice], conversations = []\<rparr>, [])
   \<and> chatbot_handler (sample_env index_js_declared 3 (\<lambda>r. Some ''hello''))
        \<lparr>users = [alice], conversations = []\<rparr> \<lparr>pid = 7, iat = 1, exp = 5\<rparr>
        \<lparr>cb_message = ''hi'', cb_systemRole = Some ''pirate''\<rparr>
      = (\<lparr>status = 500, body = Message msg_chatbot_error\<rparr>,
         \<lparr>users = [alice], conversations = []\<rparr>, [])"
proof -
  have h: "findById \<lparr>users = [alice], conversations = []\<rparr>
             (pid \<lparr>pid = 7, iat = 1, exp = 5\<rparr>) = None"
    by (simp add: findById_def alice_def)
  show ?thesis
    using h chat_absent_user [OF h] by simp
qed

text \<open>
  C7, as stated, at a concrete request. The stored systemRole of alice is \<^verbatim>\<open>pirate\<close>; her
  chat request supplies the systemRole \<^verbatim>\<open>""\<close>. The guard of line 193 sees a falsy value and
  skips lines 194 and 195: the stored systemRole is still \<^verbatim>\<open>pirate\<close> after the request, in
  the scope of index.js and also in a scope that binds \<^verbatim>\<open>Conversation\<close>, where the system
  message sent is \<^verbatim>\<open>pirate\<close>.
\<close>

theorem empty_systemRole_counterexample:
  "cb_systemRole \<lparr>cb_message = ''hi'', cb_systemRole = Some []\<rparr> = Some []
   \<and> map systemRole (users (fst (snd (chatbot_handler
        (sample_env index_js_declared 3 (\<lambda>r. Some ''aye''))
        \<lparr>users = [alice\<lparr>systemRole := Some ''pirate''\<rparr>], conversations = []\<rparr>
        \<lparr>pid = 1, iat = 1, exp = 5\<rparr>
        \<lparr>cb_message = ''hi'', cb_systemRole = Some []\<rparr>)))) = [Some ''pirate'']
   \<and> map systemRole (users (fst (snd (chatbot_handler
        (sample_env (''Conversation'' # index_js_declared) 3 (\<lambda>r. Some ''aye''))
        \<lparr>users = [alice\<lparr>systemRole := Some ''pirate''\<rparr>], conversations = []\<rparr>
        \<lparr>pid = 1, iat = 1, exp = 5\<rparr>
        \<lparr>cb_message = ''hi'', cb_systemRole = Some []\<rparr>)))) = [Some ''pirate'']
   \<and> map (\<lambda>q. hd (messages q)) (snd (snd (chatbot_handler
        (sample_env (''Conversation'' # index_js_declared) 3 (\<lambda>r. Some ''aye''))
        \<lparr>users = [alice\<lparr>systemRole := Some ''pirate''\<rparr>], conversations = []\<rparr>
        \<lparr>pid = 1, iat = 1, exp = 5\<rparr>
        \<lparr>cb_message = ''hi'', cb_systemRole = Some []\<rparr>)))
      = [\<lparr>role = ''system'', content = ''pirate''\<rparr>]"
  by (simp add: chatbot_handler_def chatbot_try_def getChatGPTResponse_def findById_def
        find_conversations_def insert_conversation_def truthy_def alice_def sample_env_def
        index_js_declared_def completion_of_def or_else_def)

text \<open>
  C7, amended. Let the requesting user have a stored record. A chat request that supplies a
  non-empty systemRole stores it on that record, whatever happens later in the request; every
  request this chat request sends to the completion API, and every request that a following
  chat request of the same user without a systemRole sends, has it as the system message. A
  chat request that supplies no systemRole, or the empty one, leaves the user collection as it
  was.
\<close>

theorem chat_systemRole_persisted:
  assumes "findById s (pid v) = Some u"
  shows "(\<forall>r. cb_systemRole b = Some r \<and> r \<noteq> [] \<longrightarrow>
            users (fst (snd (chatbot_handler e s v b)))
              = replace_doc (u\<lparr>systemRole := Some r\<rparr>) (users s)
          \<and> findById (fst (snd (chatbot_handler e s v b))) (pid v)
              = Some (u\<lparr>systemRole := Some r\<rparr>)
          \<and> (\<forall>q \<in> set (snd (snd (chatbot_handler e s v b))).
                \<exists>rest. messages q = \<lparr>role = ''system'', content = r\<rparr> # rest)
          \<and> (\<forall>e' v' b'. pid v' = pid v \<and> \<not> truthy (cb_systemRole b') \<longrightarrow>
                (\<forall>q \<in> set (snd (snd (chatbot_handler e'
                                (fst (snd (chatbot_handler e s v b))) v' b'))).
                   \<exists>rest. messages q = \<lparr>role = ''system'', content = r\<rparr> # rest)))
       \<and> (\<not> truthy (cb_systemRole b) \<longrightarrow>
            users (fst (snd (chatbot_handler e s v b))) = users s)"
proof (intro conjI allI impI)
  assume "\<not> truthy (cb_systemRole b)"
  then show "users (fst (snd (chatbot_handler e s v b))) = users s"
    using assms
    by (simp add: chatbot_handler_found Let_def insert_conversation_def split: option.splits)
next
  fix r
  assume r: "cb_systemRole b = Some r \<and> r \<noteq> []"
  then have t: "truthy (cb_systemRole b)" by (simp add: truthy_def)
  let ?u1 = "u\<lparr>systemRole := Some r\<rparr>"
  let ?s' = "fst (snd (chatbot_handler e s v b))"
  from assms have uid: "uid u = pid v" by (simp add: findById_Some)
  show us: "users ?s' = replace_doc ?u1 (users s)"
    using assms t r
    by (simp add: chatbot_handler_found Let_def insert_conversation_def save_user_def
          split: option.splits)
  have "findById (save_user s ?u1) (uid ?u1) = Some ?u1"
    using assms uid by (intro findById_save_user [of s ?u1 u]) simp
  then show fb: "findById ?s' (pid v) = Some ?u1"
    using us uid by (simp add: findById_def save_user_def)
  show "\<forall>q \<in> set (snd (snd (chatbot_handler e s v b))).
          \<exists>rest. messages q = \<lparr>role = ''system'', content = r\<rparr> # rest"
    using assms t r
    by (auto simp: chatbot_handler_found Let_def completion_of_def or_else_def
          split: option.splits)
  fix e' :: env and v' :: jwt_payload and b' :: chat_body
  assume n: "pid v' = pid v \<and> \<not> truthy (cb_systemRole b')"
  with fb have fb': "findById ?s' (pid v') = Some ?u1" by simp
  show "\<forall>q \<in> set (snd (snd (chatbot_handler e' ?s' v' b'))).
          \<exists>rest. messages q = \<lparr>role = ''system'', content = r\<rparr> # rest"
    using n r
    by (auto simp: chatbot_handler_found [OF fb'] Let_def completion_of_def or_else_def
          split: option.splits)
qed

theorem chat_systemRole_persisted_witness:
  "findById \<lparr>users = [alice], conversations = []\<rparr> (pid \<lparr>pid = 1, iat = 1, exp = 5\<rparr>)
     = Some alice
   \<and> users (fst (snd (chatbot_handler
        (sample_env (''Conversation'' # index_js_declared) 3 (\<lambda>r. Some ''aye''))
        \<lparr>users = [alice], conversations = []\<rparr> \<lparr>pid = 1, iat = 1, exp = 5\<rparr>
        \<lparr>cb_message = ''hi'', cb_systemRole = Some ''pirate''\<rparr>)))
      = [alice\<lparr>systemRole := Some ''pirate''\<rparr>]
   \<and> map (\<lambda>q. hd (messages q)) (snd (snd (chatbot_handler
        (sample_env (''Conversation'' # index_js_declared) 9 (\<lambda>r. Some ''arr''))
        (fst (snd (chatbot_handler
          (sample_env (''Conversation'' # index_js_declared) 3 (\<lambda>r. Some ''aye''))
          \<lparr>users = [alice], conversations = []\<rparr> \<lparr>pid = 1, iat = 1, exp = 5\<rparr>
          \<lparr>cb_message = ''hi'', cb_systemRole = Some ''pirate''\<rparr>)))
        \<lparr>pid = 1, iat = 7, exp = 11\<rparr>
        \<lparr>cb_message = ''again'', cb_systemRole = None\<rparr>)))
      = [\<lparr>role = ''system'', content = ''pirate''\<rparr>]
   \<and> users (fst (snd (chatbot_handler
        (sample_env (''Conversation'' # index_js_declared) 3 (\<lambda>r. Some ''aye''))
        \<lparr>users = [alice], conversations = []\<rparr> \<lparr>pid = 1, iat = 1, exp = 5\<rparr>
        \<lparr>cb_message = ''hi'', cb_systemRole = None\<rparr>))) = [alice]"
proof -
  have h: "findById \<lparr>users = [alice], conversations = []\<rparr>
             (pid \<lparr>pid = 1, iat = 1, exp = 5\<rparr>) = Some alice"
    by (simp add: findById_def alice_def)
  show ?thesis
    using h
      chat_systemRole_persisted [OF h,
        where b = "\<lparr>cb_message = ''hi'', cb_systemRole = Some ''pirate''\<rparr>"
          and e = "sample_env (''Conversation'' # index_js_declared) 3 (\<lambda>r. Some ''aye'')"]
      chat_systemRole_persisted [OF h,
        where b = "\<lparr>cb_message = ''hi'', cb_systemRole = None\<rparr>"
          and e = "sample_env (''Conversation'' # index_js_declared) 3 (\<lambda>r. Some ''aye'')"]
    by (simp add: chatbot_handler_def chatbot_try_def getChatGPTResponse_def findById_def
          find_conversations_def insert_conversation_def save_user_def truthy_def alice_def
          sample_env_def completion_of_def or_else_def)
qed

subsection \<open>The chat handler in the scope of index.js\<close>

text \<open>
  In a module scope that does not bind \<^verbatim>\<open>Conversation\<close>, line 199 throws: every chat request
  is answered 500, no turn is written and nothing is sent to the completion API. The scope of
  index.js is such a scope.
\<close>

lemma chatbot_handler_unbound:
  assumes "''Conversation'' \<notin> set (declared e)"
  shows "status (fst (chatbot_handler e s v b)) = 500
     \<and> conversations (fst (snd (chatbot_handler e s v b))) = conversations s
     \<and> snd (snd (chatbot_handler e s v b)) = []"
proof (cases "findById s (pid v)")
  case None
  then show ?thesis by (simp add: chatbot_handler_absent)
next
  case (Some u)
  then show ?thesis using assms
    by (simp add: chatbot_handler_found Let_def save_user_def)
qed

lemma index_js_Conversation_unbound: "''Conversation'' \<notin> set index_js_declared"
  by (simp add: index_js_declared_def)

text \<open>
  C1, at a concrete request run in the scope of index.js. alice has two stored turns and a
  valid token; her chat request is answered 500, the store is as before, and no request, so
  no history, has been sent to the completion API.
\<close>

theorem chat_history_not_forwarded:
  "post_api_chatbot (sample_env index_js_declared 3 (\<lambda>r. Some ''hello''))
      \<lparr>users = [alice],
       conversations = [\<lparr>role = ''user'', content = ''hi'', userId = 1\<rparr>,
                        \<lparr>role = ''assistant'', content = ''hello'', userId = 1\<rparr>]\<rparr>
      (Some ''Bearer 1.1.11111.s'')
      \<lparr>cb_message = ''again'', cb_systemRole = None\<rparr>
    = (\<lparr>status = 500, body = Message msg_chatbot_error\<rparr>,
       \<lparr>users = [alice],
        conversations = [\<lparr>role = ''user'', content = ''hi'', userId = 1\<rparr>,
                         \<lparr>role = ''assistant'', content = ''hello'', userId = 1\<rparr>]\<rparr>,
       [])"
  by (simp add: post_api_chatbot_def authenticateToken_def header_token_def
        chatbot_handler_def chatbot_try_def findById_def truthy_def alice_def sample_env_def
        sample_verify_def index_js_declared_def)

text \<open>
  C2, at a concrete request run in the scope of index.js. alice has the stored systemRole
  \<^verbatim>\<open>pirate\<close> and a valid token; her chat request with message \<^verbatim>\<open>hi\<close> is answered 500 and the
  completion API has not been invoked: no system message, history or user message is sent.
\<close>

theorem chat_completion_not_invoked:
  "post_api_chatbot (sample_env index_js_declared 3 (\<lambda>r. Some ''hello''))
      \<lparr>users = [alice\<lparr>systemRole := Some ''pirate''\<rparr>], conversations = []\<rparr>
      (Some ''Bearer 1.1.11111.s'')
      \<lparr>cb_message = ''hi'', cb_systemRole = None\<rparr>
    = (\<lparr>status = 500, body = Message msg_chatbot_error\<rparr>,
       \<lparr>users = [alice\<lparr>systemRole := Some ''pirate''\<rparr>], conversations = []\<rparr>,
       [])"
  by (simp add: post_api_chatbot_def authenticateToken_def header_token_def
        chatbot_handler_def chatbot_try_def findById_def truthy_def alice_def sample_env_def
        sample_verify_def index_js_declared_def)

text \<open>
  In a module scope that does bind \<^verbatim>\<open>Conversation\<close>, lines 199 to 203 send one request: the
  system message, the stored turns of the user in stored order, and the new user message.
\<close>

lemma chatbot_forwards_when_bound:
  assumes "''Conversation'' \<in> set (declared e)" and "findById s (pid v) = Some u"
    and "\<not> truthy (cb_systemRole b)"
  shows "snd (snd (chatbot_handler e s v b)) =
    [\<lparr>model = ''gpt-4'',
      messages = \<lparr>role = ''system'',
                  content = or_else (systemRole u) ''You are a helpful assistant.''\<rparr>
                 # map (\<lambda>c. \<lparr>role = role c, content = content c\<rparr>)
                     (filter (\<lambda>c. userId c = pid v) (conversations s))
                 @ [\<lparr>role = ''user'', content = cb_message b\<rparr>],
      temperature = 1, max_tokens = 256\<rparr>]"
  using assms
  by (simp add: chatbot_handler_found Let_def completion_of_def find_conversations_def
        split: option.splits)

end
